theory Spec2Isabelle
  imports Main "HOL-Library.Monad_Syntax"
begin

section \<open>The chainable-error package \<open>errors\<close> of go-std\<close>

text \<open>
  The development embeds the most complete variant of the package (the one whose
  \<open>Error\<close> is a struct and whose functions take the built-in \<open>error\<close> interface).
  A function that contains a loop is a \<^theory_text>\<open>partial_function\<close> in the option monad:
  \<open>None\<close> is a call that does not return (an endless loop, or a panic).
\<close>

subsection \<open>Data model\<close>

text \<open>
  \<open>type Error struct { addr uintptr; file string; fn string; line int; parent error;
  text string }\<close>. The fields are read through the accessor methods \<open>Addr\<close>, \<open>File\<close>,
  \<open>Func\<close>, \<open>Line\<close>, \<open>Parent\<close>, \<open>Text\<close>, which are the selectors here. No arithmetic
  is ever done on \<open>addr\<close> or \<open>line\<close>, so they are a \<open>nat\<close> and an \<open>int\<close>.

  A value of the interface type \<open>error\<close> is \<open>nil\<close>, or holds an \<open>Error\<close> struct, or holds a
  value of some foreign type, of which only the string its \<open>Error()\<close> method returns
  is observable.
\<close>

datatype Error =
  Error (Addr: nat) (File: string) (Func: string) (Line: int) (Parent: error) (Text: string)
and error =
  nil
| Structured Error
| Opaque string

subsection \<open>The Go runtime and library functions the package calls\<close>

text \<open>
  \<open>runtime.Caller(skip)\<close> reads the call stack: index 0 is the function that calls
  \<open>Caller\<close>, index 1 its caller, and so on; beyond the stack it returns zero values and
  \<open>ok = false\<close>. \<open>runtime.FuncForPC(pc).Name()\<close> is the name of the function that
  contains \<open>pc\<close>, and the empty string when there is none. \<open>inner\<close> is the frame that a
  method called from the modelled function runs in.
\<close>

record Frame =
  frame_pc :: nat
  frame_file :: string
  frame_line :: int

record runtime =
  frames :: "Frame list"
  funcs :: "nat \<Rightarrow> string option"
  inner :: Frame

definition Caller :: "runtime \<Rightarrow> nat \<Rightarrow> nat \<times> string \<times> int \<times> bool" where
  "Caller rt skip =
     (if skip < length (frames rt)
      then (let f = frames rt ! skip in (frame_pc f, frame_file f, frame_line f, True))
      else (0, [], 0, False))"

definition FuncForPC_Name :: "runtime \<Rightarrow> nat \<Rightarrow> string" where
  "FuncForPC_Name rt a = (case funcs rt a of None \<Rightarrow> [] | Some n \<Rightarrow> n)"

definition call :: "runtime \<Rightarrow> runtime" where
  "call rt = rt\<lparr>frames := inner rt # frames rt\<rparr>"

text \<open>\<open>strings.Index\<close> and \<open>strings.Cut\<close>: the first occurrence of \<open>sep\<close> splits \<open>s\<close>.\<close>

fun Index :: "string \<Rightarrow> string \<Rightarrow> nat option" where
  "Index [] sep = (if sep = [] then Some 0 else None)"
| "Index (c # cs) sep =
     (if take (length sep) (c # cs) = sep then Some 0
      else map_option Suc (Index cs sep))"

definition Cut :: "string \<Rightarrow> string \<Rightarrow> string \<times> string \<times> bool" where
  "Cut s sep =
     (case Index s sep of
        Some i \<Rightarrow> (take i s, drop (i + length sep) s, True)
      | None \<Rightarrow> (s, [], False))"

subsection \<open>Methods of \<open>Error\<close>\<close>

text \<open>
  The loop of \<open>Error.Error\<close>, on the variables \<open>err\<close> and \<open>text\<close>; the flag \<open>next\<close> is
  the difference between returning and going round again. A type switch has no case
  for a nil interface value, so on \<open>nil\<close> the body would do nothing and the loop would
  go round for ever.
\<close>

partial_function (option) Error_loop :: "error \<Rightarrow> string \<Rightarrow> string option" where
  "Error_loop err text =
     (case err of
        Structured t \<Rightarrow>
          (if Parent t = nil then Some (text @ Text t)
           else Error_loop (Parent t) (text @ Text t @ '': ''))
      | Opaque m \<Rightarrow> Some (text @ m)
      | nil \<Rightarrow> Error_loop err text)"

definition Error_Error :: "Error \<Rightarrow> string option" where
  "Error_Error e = Error_loop (Structured e) []"

text \<open>
  A call \<open>err.Error()\<close> through the interface: dispatch on the dynamic type; on a nil
  interface value it panics.
\<close>

definition error_Error :: "error \<Rightarrow> string option" where
  "error_Error err =
     (case err of
        nil \<Rightarrow> None
      | Structured e \<Rightarrow> Error_Error e
      | Opaque m \<Rightarrow> Some m)"

definition raise :: "runtime \<Rightarrow> Error \<Rightarrow> error" where
  "raise rt e =
     (let err = e;
          (addr, file, line, ok) = Caller rt 2;
          fn = FuncForPC_Name rt addr
      in Structured (Error addr file fn line (Parent err) (Text err)))"

subsection \<open>Functions of the package\<close>

definition New :: "runtime \<Rightarrow> string \<Rightarrow> error \<Rightarrow> error" where
  "New rt text err =
     (let (addr, file, line, ok) = Caller rt 1;
          fn = FuncForPC_Name rt addr
      in Structured (Error addr file fn line err text))"

text \<open>
  The loop of \<open>Has\<close>, on the variable \<open>err\<close>; \<open>text\<close> is the text taken from the
  target. The type switch has the two cases \<open>Error\<close> and \<open>error\<close>; a nil interface
  value matches neither, the body does nothing, and the \<open>for\<close> goes round again.
\<close>

partial_function (option) Has_loop :: "error \<Rightarrow> string \<Rightarrow> bool option" where
  "Has_loop err text =
     (case err of
        Structured t \<Rightarrow>
          (if Text t = text then Some True
           else (let err = Parent t in if err = nil then Some False else Has_loop err text))
      | Opaque m \<Rightarrow>
          do {
            s \<leftarrow> error_Error err;
            let (utext, after, found) = Cut s '': '';
            if utext = text then Some True else Some False
          }
      | nil \<Rightarrow> Has_loop err text)"

definition Has :: "error \<Rightarrow> error \<Rightarrow> bool option" where
  "Has err target =
     (if err = nil \<and> target = nil then Some True
      else if target = nil then Some False
      else do {
        text \<leftarrow> (case target of
                  Structured t \<Rightarrow> Some (Text t)
                | Opaque m \<Rightarrow>
                    do { s \<leftarrow> error_Error target; Some (fst (Cut s '': '')) }
                | nil \<Rightarrow> Some []);
        Has_loop err text
      })"

text \<open>The last three lines of \<open>Is\<close>, reached when no inner case has returned.\<close>

definition Is_tail :: "error \<Rightarrow> error \<Rightarrow> bool option" where
  "Is_tail err target =
     do {
       s \<leftarrow> error_Error err;
       let (utext, after, found) = Cut s '': '';
       s' \<leftarrow> error_Error target;
       let (vtext, after', found') = Cut s' '': '';
       Some (utext = vtext)
     }"

definition Is :: "error \<Rightarrow> error \<Rightarrow> bool option" where
  "Is err target =
     (if err = nil \<and> target = nil then Some True
      else if err = nil \<or> target = nil then Some False
      else (case err of
              Structured t \<Rightarrow>
                (case target of
                   Structured u \<Rightarrow> Some (Text t = Text u)
                 | Opaque m \<Rightarrow>
                     do {
                       s \<leftarrow> error_Error target;
                       let (text, after, found) = Cut s '': '';
                       Some (Text t = text)
                     }
                 | nil \<Rightarrow> Is_tail err target)
            | Opaque m \<Rightarrow>
                (case target of
                   Structured u \<Rightarrow>
                     do {
                       s \<leftarrow> error_Error err;
                       let (text, after, found) = Cut s '': '';
                       Some (text = Text u)
                     }
                 | _ \<Rightarrow> Is_tail err target)
            | nil \<Rightarrow> Is_tail err target))"

text \<open>
  The loop of \<open>Join\<close> over \<open>errs\<close>, on the variables \<open>first\<close> and \<open>text\<close>; it yields the
  final \<open>text\<close>.
\<close>

fun Join_loop :: "error list \<Rightarrow> bool \<Rightarrow> string \<Rightarrow> string option" where
  "Join_loop [] first text = Some text"
| "Join_loop (err # errs) first text =
     (if err \<noteq> nil then
        do {
          let (first', text') = (if first then (False, text) else (first, text @ '', ''));
          d \<leftarrow> (case err of Structured t \<Rightarrow> Some (Text t) | _ \<Rightarrow> error_Error err);
          Join_loop errs first' (text' @ d)
        }
      else Join_loop errs first text)"

definition Join :: "runtime \<Rightarrow> error list \<Rightarrow> error option" where
  "Join rt errs =
     do {
       text \<leftarrow> Join_loop errs True [];
       if text = [] then Some nil
       else (let (addr, file, line, ok) = Caller rt 1;
                 fn = FuncForPC_Name rt addr
             in Some (Structured (Error addr file fn line nil text)))
     }"

definition Raise :: "runtime \<Rightarrow> error \<Rightarrow> error" where
  "Raise rt err = (case err of Structured e \<Rightarrow> raise (call rt) e | _ \<Rightarrow> err)"

subsection \<open>\<open>Raise\<close> on an explicit store of variables\<close>

text \<open>
  Go passes arguments and receivers by value: a call copies the value of the caller's
  variable into a variable of the callee, and an assignment to a field changes the
  variable that is named, nothing else. To speak of the caller's variable after a call
  of \<open>Raise\<close>, the same code is given once more with every variable in a store:
  \<open>caller_var\<close> is the variable whose value the caller passes, \<open>Raise_err\<close> the parameter
  \<open>err\<close> of \<open>Raise\<close>, \<open>Raise_e\<close> the \<open>e\<close> that the type switch binds, \<open>raise_e\<close> the receiver
  of \<open>raise\<close> and \<open>raise_err\<close> its local \<open>err\<close>. Each function yields the store at its
  return and the value it returns.
\<close>

record vars =
  caller_var :: error
  Raise_err :: error
  Raise_e :: Error
  raise_e :: Error
  raise_err :: Error

text \<open>The assignments \<open>err.addr = addr\<close>, \<open>err.file = file\<close>, \<open>err.fn = fn\<close>, \<open>err.line = line\<close>.\<close>

fun set_addr :: "nat \<Rightarrow> Error \<Rightarrow> Error" where
  "set_addr v (Error a f n l p t) = Error v f n l p t"

fun set_file :: "string \<Rightarrow> Error \<Rightarrow> Error" where
  "set_file v (Error a f n l p t) = Error a v n l p t"

fun set_fn :: "string \<Rightarrow> Error \<Rightarrow> Error" where
  "set_fn v (Error a f n l p t) = Error a f v l p t"

fun set_line :: "int \<Rightarrow> Error \<Rightarrow> Error" where
  "set_line v (Error a f n l p t) = Error a f n v p t"

definition raise_vars :: "runtime \<Rightarrow> vars \<Rightarrow> vars \<times> error" where
  "raise_vars rt s =
     (let s = s\<lparr>raise_err := raise_e s\<rparr>;
          (addr, file, line, ok) = Caller rt 2;
          fn = FuncForPC_Name rt addr;
          s = s\<lparr>raise_err := set_addr addr (raise_err s)\<rparr>;
          s = s\<lparr>raise_err := set_file file (raise_err s)\<rparr>;
          s = s\<lparr>raise_err := set_fn fn (raise_err s)\<rparr>;
          s = s\<lparr>raise_err := set_line line (raise_err s)\<rparr>
      in (s, Structured (raise_err s)))"

definition Raise_vars :: "runtime \<Rightarrow> vars \<Rightarrow> vars \<times> error" where
  "Raise_vars rt s =
     (let s = s\<lparr>Raise_err := caller_var s\<rparr>
      in case Raise_err s of
           Structured e \<Rightarrow>
             (let s = s\<lparr>Raise_e := e\<rparr>;
                  s = s\<lparr>raise_e := Raise_e s\<rparr>
              in raise_vars (call rt) s)
         | _ \<Rightarrow> (s, Raise_err s))"

subsection \<open>\<open>Trace\<close> and its sink\<close>

text \<open>
  An \<open>io.Writer\<close> is the standard error stream or some other stream; the state of the
  world is what has been written to each. The verb \<open>%d\<close> prints a Go \<open>int\<close> in
  decimal, with a minus sign when it is negative.
\<close>

datatype writer = Stderr | Stream nat

type_synonym sinks = "writer \<Rightarrow> string"

definition Fprint :: "writer \<Rightarrow> string \<Rightarrow> sinks \<Rightarrow> sinks" where
  "Fprint w s out = out(w := out w @ s)"

definition NL :: string where
  "NL = [CHR 0x0A]"

definition TAB :: string where
  "TAB = [CHR 0x09]"

fun decimal :: "nat \<Rightarrow> string" where
  "decimal n =
     (if n < 10 then [''0123456789'' ! n]
      else decimal (n div 10) @ [''0123456789'' ! (n mod 10)])"

definition Itoa :: "int \<Rightarrow> string" where
  "Itoa i = (if i < 0 then CHR ''-'' # decimal (nat (- i)) else decimal (nat i))"

text \<open>
  The loop of \<open>Trace\<close>. A \<open>defer\<close> evaluates the arguments of its call at once and
  pushes the call; \<open>deferred\<close> is that stack, the call pushed last at the head, each
  call being the text it will write to \<open>w\<close>.
\<close>

partial_function (option) Trace_loop :: "error \<Rightarrow> string list \<Rightarrow> string list option" where
  "Trace_loop err deferred =
     (case err of
        Structured t \<Rightarrow>
          (let deferred = (TAB @ File t @ '':'' @ Itoa (Line t) @ NL) # deferred;
               deferred = (TAB @ Text t @ NL) # deferred;
               deferred = (Func t @ ''(...)'' @ NL) # deferred;
               err = Parent t
           in if err = nil then Some deferred else Trace_loop err deferred)
      | Opaque m \<Rightarrow>
          do {
            s \<leftarrow> error_Error err;
            let deferred = (TAB @ s @ NL) # deferred;
            let deferred = (''no-context error:'' @ NL) # deferred;
            Some deferred
          }
      | nil \<Rightarrow> Trace_loop err deferred)"

text \<open>When the function returns, the deferred calls run, the one pushed last first.\<close>

definition run_deferred :: "writer \<Rightarrow> string list \<Rightarrow> sinks \<Rightarrow> sinks" where
  "run_deferred w deferred out = foldl (\<lambda>out s. Fprint w s out) out deferred"

definition header :: string where
  "header = ''Traceback (most recent call first):''"

definition Trace :: "writer option \<Rightarrow> error \<Rightarrow> sinks \<Rightarrow> sinks option" where
  "Trace w err out =
     (let w = (case w of None \<Rightarrow> Stderr | Some w' \<Rightarrow> w');
          out = Fprint w (header @ NL) out
      in do {
        deferred \<leftarrow> Trace_loop err [];
        Some (run_deferred w deferred out)
      })"

subsection \<open>The chain of an error, as the specification speaks of it\<close>

text \<open>
  The nodes of a chain from the leaf to the root: every structured error followed by
  the chain of its parent; a foreign error ends the chain.
\<close>

fun chain_of :: "Error \<Rightarrow> error list" and chain :: "error \<Rightarrow> error list" where
  "chain_of (Error a f n l p t) = Structured (Error a f n l p t) # chain p"
| "chain nil = []"
| "chain (Structured e) = chain_of e"
| "chain (Opaque m) = [Opaque m]"

text \<open>What one node contributes to the rendered description.\<close>

fun node_text :: "error \<Rightarrow> string" where
  "node_text nil = []"
| "node_text (Structured e) = Text e"
| "node_text (Opaque m) = m"

text \<open>The strings of a list with a separator between neighbours.\<close>

fun intercalate :: "string \<Rightarrow> string list \<Rightarrow> string" where
  "intercalate sep [] = []"
| "intercalate sep [x] = x"
| "intercalate sep (x # y # ys) = x @ sep @ intercalate sep (y # ys)"

definition render :: "error \<Rightarrow> string" where
  "render e = intercalate '': '' (map node_text (chain e))"

text \<open>
  The leaf segment of a description: the text of a structured error, and of a foreign
  error the part of its message before the first \<open>": "\<close>.
\<close>

fun leaf_text :: "error \<Rightarrow> string" where
  "leaf_text nil = []"
| "leaf_text (Structured e) = Text e"
| "leaf_text (Opaque m) = fst (Cut m '': '')"

text \<open>The present entries of an argument list.\<close>

definition present :: "error list \<Rightarrow> error list" where
  "present errs = filter (\<lambda>e. e \<noteq> nil) errs"

text \<open>
  The block of one chain node in a traceback, as it reaches the sink: for a structured
  error the function marker, the text and the location; for a foreign error the
  marker \<open>no-context error:\<close> and the message.
\<close>

fun block :: "error \<Rightarrow> string" where
  "block nil = []"
| "block (Structured t) =
     Func t @ ''(...)'' @ NL @ TAB @ Text t @ NL @ TAB @ File t @ '':'' @ Itoa (Line t) @ NL"
| "block (Opaque m) = ''no-context error:'' @ NL @ TAB @ m @ NL"

text \<open>
  The texts of a block one by one, in the order in which they reach the sink, and the
  test for the node of a foreign error.
\<close>

fun pieces :: "error \<Rightarrow> string list" where
  "pieces nil = []"
| "pieces (Structured t) =
     [Func t @ ''(...)'' @ NL, TAB @ Text t @ NL, TAB @ File t @ '':'' @ Itoa (Line t) @ NL]"
| "pieces (Opaque m) = [''no-context error:'' @ NL, TAB @ m @ NL]"

fun opaque_node :: "error \<Rightarrow> bool" where
  "opaque_node (Opaque m) = True"
| "opaque_node _ = False"

text \<open>The sink that \<open>Trace\<close> writes to: the standard error stream when none is given.\<close>

definition sink :: "writer option \<Rightarrow> writer" where
  "sink w = (case w of None \<Rightarrow> Stderr | Some w' \<Rightarrow> w')"

text \<open>
  The error with text \<open>t\<close> and parent \<open>p\<close> whose context is the call site \<open>skip\<close>
  frames up the stack.
\<close>

definition stamp :: "runtime \<Rightarrow> nat \<Rightarrow> error \<Rightarrow> string \<Rightarrow> Error" where
  "stamp rt skip p t =
     Error (fst (Caller rt skip)) (fst (snd (Caller rt skip)))
       (FuncForPC_Name rt (fst (Caller rt skip))) (fst (snd (snd (Caller rt skip)))) p t"

text \<open>Whether an error is a structured error that has a parent.\<close>

fun has_parent :: "error \<Rightarrow> bool" where
  "has_parent (Structured e) = (Parent e \<noteq> nil)"
| "has_parent _ = False"

text \<open>
  A runtime to evaluate examples in: the modelled function runs at \<open>errors.go:100\<close>,
  called from \<open>main.main\<close> at \<open>main.go:12\<close>.
\<close>

definition main_rt :: runtime where
  "main_rt =
     \<lparr>frames = [\<lparr>frame_pc = 7, frame_file = ''errors.go'', frame_line = 100\<rparr>,
                \<lparr>frame_pc = 42, frame_file = ''main.go'', frame_line = 12\<rparr>],
      funcs = (\<lambda>a. if a = 42 then Some ''main.main'' else None),
      inner = \<lparr>frame_pc = 3, frame_file = ''errors.go'', frame_line = 50\<rparr>\<rparr>"

section \<open>Properties\<close>

lemma chain_Structured: "chain (Structured e) = Structured e # chain (Parent e)"
  by (cases e) simp

lemma chain_eq_Nil_iff: "chain x = [] \<longleftrightarrow> x = nil"
  by (cases x) (simp_all only: chain_Structured chain.simps, simp_all)

lemma render_nil: "render nil = []"
  by (simp add: render_def)

lemma render_Opaque: "render (Opaque m) = m"
  by (simp add: render_def)

lemma render_Structured:
  "render (Structured e) =
     (if Parent e = nil then Text e else Text e @ '': '' @ render (Parent e))"
proof (cases "chain (Parent e)")
  case Nil
  then show ?thesis
    by (simp only: render_def chain_Structured chain_eq_Nil_iff) simp
next
  case (Cons y ys)
  then have "Parent e \<noteq> nil"
    using chain_eq_Nil_iff [of "Parent e"] by simp
  with Cons show ?thesis
    by (simp only: render_def chain_Structured) simp
qed

lemma Error_loop_render_aux:
  "x \<noteq> nil \<longrightarrow> (\<forall>acc. Error_loop x acc = Some (acc @ render x))"
proof (rule error.induct
    [where ?P1.0 = "\<lambda>e. \<forall>acc. Error_loop (Structured e) acc = Some (acc @ render (Structured e))"])
  fix a f n l p t
  assume "p \<noteq> nil \<longrightarrow> (\<forall>acc. Error_loop p acc = Some (acc @ render p))"
  then show "\<forall>acc. Error_loop (Structured (Error a f n l p t)) acc =
      Some (acc @ render (Structured (Error a f n l p t)))"
    by (subst Error_loop.simps) (simp add: render_Structured)
next
  fix m
  show "Opaque m \<noteq> nil \<longrightarrow> (\<forall>acc. Error_loop (Opaque m) acc = Some (acc @ render (Opaque m)))"
    by (subst Error_loop.simps) (simp add: render_Opaque)
qed simp_all

lemma Error_loop_render: "x \<noteq> nil \<Longrightarrow> Error_loop x acc = Some (acc @ render x)"
  using Error_loop_render_aux [of x] by simp

lemma Error_Error_render: "Error_Error e = Some (render (Structured e))"
  unfolding Error_Error_def by (simp add: Error_loop_render)

lemma error_Error_render: "x \<noteq> nil \<Longrightarrow> error_Error x = Some (render x)"
  by (cases x) (simp_all add: error_Error_def Error_Error_render render_Opaque)

subsection \<open>The loops\<close>

lemma Has_loop_Some_present: "Has_loop err s = Some r \<Longrightarrow> err \<noteq> nil"
proof (rule Has_loop.raw_induct [where P = "\<lambda>err s r. err \<noteq> nil"])
  fix f :: "error \<Rightarrow> string \<Rightarrow> bool option" and err s r
  assume IH: "\<And>err s r. f err s = Some r \<Longrightarrow> err \<noteq> nil"
    and body: "(case err of
        Structured t \<Rightarrow>
          (if Text t = s then Some True
           else (let err = Parent t in if err = nil then Some False else f err s))
      | Opaque m \<Rightarrow>
          do {
            s' \<leftarrow> error_Error err;
            let (utext, after, found) = Cut s' '': '';
            if utext = s then Some True else Some False
          }
      | nil \<Rightarrow> f err s) = Some r"
  show "err \<noteq> nil"
  proof
    assume "err = nil"
    with body have "f nil s = Some r" by simp
    with IH show False by blast
  qed
qed

lemma Has_loop_nil: "Has_loop nil s = None"
proof (cases "Has_loop nil s")
  case (Some r)
  then show ?thesis using Has_loop_Some_present by blast
qed simp

lemma Trace_loop_Some_present: "Trace_loop err d = Some r \<Longrightarrow> err \<noteq> nil"
proof (rule Trace_loop.raw_induct [where P = "\<lambda>err d r. err \<noteq> nil"])
  fix f :: "error \<Rightarrow> string list \<Rightarrow> string list option" and err :: error and d r :: "string list"
  assume IH: "\<And>err d r. f err d = Some r \<Longrightarrow> err \<noteq> nil"
    and body: "(case err of
        Structured t \<Rightarrow>
          (let deferred = (TAB @ File t @ '':'' @ Itoa (Line t) @ NL) # d;
               deferred = (TAB @ Text t @ NL) # deferred;
               deferred = (Func t @ ''(...)'' @ NL) # deferred;
               err = Parent t
           in if err = nil then Some deferred else f err deferred)
      | Opaque m \<Rightarrow>
          do {
            s \<leftarrow> error_Error err;
            let deferred = (TAB @ s @ NL) # d;
            let deferred = (''no-context error:'' @ NL) # deferred;
            Some deferred
          }
      | nil \<Rightarrow> f err d) = Some r"
  show "err \<noteq> nil"
  proof
    assume "err = nil"
    with body have "f nil d = Some r" by simp
    with IH show False by blast
  qed
qed

lemma Trace_loop_nil: "Trace_loop nil d = None"
proof (cases "Trace_loop nil d")
  case (Some r)
  then show ?thesis using Trace_loop_Some_present by blast
qed simp

lemma Has_loop_chain_aux:
  "x \<noteq> nil \<longrightarrow> Has_loop x s = Some (s \<in> set (map leaf_text (chain x)))"
proof (rule error.induct
    [where ?P1.0 = "\<lambda>e. Has_loop (Structured e) s =
        Some (s \<in> set (map leaf_text (chain (Structured e))))"])
  fix a f n l p t
  assume "p \<noteq> nil \<longrightarrow> Has_loop p s = Some (s \<in> set (map leaf_text (chain p)))"
  then show "Has_loop (Structured (Error a f n l p t)) s =
      Some (s \<in> set (map leaf_text (chain (Structured (Error a f n l p t)))))"
    by (subst Has_loop.simps) (auto simp add: chain_Structured)
next
  fix m
  show "Opaque m \<noteq> nil \<longrightarrow>
      Has_loop (Opaque m) s = Some (s \<in> set (map leaf_text (chain (Opaque m))))"
    by (subst Has_loop.simps) (auto simp add: error_Error_def split: prod.splits)
qed simp_all


lemma concat_pieces: "concat (pieces n) = block n"
  by (cases n) simp_all

lemma Trace_loop_chain_aux:
  "x \<noteq> nil \<longrightarrow> (\<forall>d. Trace_loop x d = Some (concat (map pieces (rev (chain x))) @ d))"
proof (rule error.induct
    [where ?P1.0 = "\<lambda>e. \<forall>d. Trace_loop (Structured e) d =
        Some (concat (map pieces (rev (chain (Structured e)))) @ d)"])
  fix a f n l p t
  assume "p \<noteq> nil \<longrightarrow> (\<forall>d. Trace_loop p d = Some (concat (map pieces (rev (chain p))) @ d))"
  then show "\<forall>d. Trace_loop (Structured (Error a f n l p t)) d =
      Some (concat (map pieces (rev (chain (Structured (Error a f n l p t))))) @ d)"
    by (subst Trace_loop.simps) (simp add: chain_Structured Let_def)
next
  fix m
  show "Opaque m \<noteq> nil \<longrightarrow> (\<forall>d. Trace_loop (Opaque m) d =
      Some (concat (map pieces (rev (chain (Opaque m)))) @ d))"
    by (subst Trace_loop.simps) (simp add: error_Error_def)
qed simp_all

lemma run_deferred_concat: "run_deferred w ds out = out(w := out w @ concat ds)"
  unfolding run_deferred_def by (induction ds arbitrary: out) (simp_all add: Fprint_def)

lemma concat_concat_pieces: "concat (concat (map pieces ns)) = concat (map block ns)"
  by (induction ns) (simp_all add: concat_pieces)

lemma Trace_present:
  assumes "err \<noteq> nil"
  shows "Trace w err out =
    Some (out((case w of None \<Rightarrow> Stderr | Some w' \<Rightarrow> w') :=
      out (case w of None \<Rightarrow> Stderr | Some w' \<Rightarrow> w') @ header @ NL @
      concat (map block (rev (chain err)))))"
proof -
  from assms have "Trace_loop err [] = Some (concat (map pieces (rev (chain err))))"
    using Trace_loop_chain_aux [of err] by simp
  then show ?thesis
    by (simp add: Trace_def run_deferred_concat concat_concat_pieces Fprint_def Let_def)
qed

lemma chain_opaque_aux:
  "filter opaque_node (chain x) = [] \<or>
   (\<exists>m. filter opaque_node (chain x) = [Opaque m] \<and> last (chain x) = Opaque m)"
proof (rule error.induct
    [where ?P1.0 = "\<lambda>e. filter opaque_node (chain (Structured e)) = [] \<or>
   (\<exists>m. filter opaque_node (chain (Structured e)) = [Opaque m] \<and> last (chain (Structured e)) = Opaque m)"
    and ?P2.0 = "\<lambda>x. filter opaque_node (chain x) = [] \<or>
   (\<exists>m. filter opaque_node (chain x) = [Opaque m] \<and> last (chain x) = Opaque m)"])
  fix a f n l p t
  assume "filter opaque_node (chain p) = [] \<or>
   (\<exists>m. filter opaque_node (chain p) = [Opaque m] \<and> last (chain p) = Opaque m)"
  then show "filter opaque_node (chain (Structured (Error a f n l p t))) = [] \<or>
   (\<exists>m. filter opaque_node (chain (Structured (Error a f n l p t))) = [Opaque m] \<and>
     last (chain (Structured (Error a f n l p t))) = Opaque m)"
    by (auto simp add: chain_Structured)
qed simp_all

lemma Join_loop_text_aux:
  "Join_loop errs first acc =
     Some (if present errs = [] then acc
           else acc @ (if first then [] else '', '') @
             intercalate '', '' (map node_text (present errs)))"
proof (induction errs arbitrary: first acc)
  case Nil
  show ?case by (simp add: present_def)
next
  case (Cons e errs)
  show ?case
  proof (cases e)
    case nil
    with Cons show ?thesis by (simp add: present_def)
  next
    case (Structured t)
    with Cons show ?thesis
      by (cases "present errs") (simp_all add: present_def)
  next
    case (Opaque m)
    with Cons show ?thesis
      by (cases "present errs") (simp_all add: present_def error_Error_def)
  qed
qed

lemma Join_loop_text:
  "Join_loop errs True [] = Some (intercalate '', '' (map node_text (present errs)))"
  by (simp add: Join_loop_text_aux)

lemma Is_char:
  "Is a b = Some ((a = nil \<and> b = nil) \<or> (a \<noteq> nil \<and> b \<noteq> nil \<and> leaf_text a = leaf_text b))"
  by (cases a; cases b) (simp_all add: Is_def Is_tail_def error_Error_def split: prod.splits)


subsection \<open>The functions in closed form\<close>

lemma Caller_call: "Caller (call rt) (Suc n) = Caller rt n"
  by (simp add: Caller_def call_def)

lemma FuncForPC_Name_call: "FuncForPC_Name (call rt) a = FuncForPC_Name rt a"
  by (simp add: FuncForPC_Name_def call_def)

lemma New_stamp: "New rt t p = Structured (stamp rt 1 p t)"
  by (simp add: New_def stamp_def split: prod.splits)

lemma stamp_sel: "Text (stamp rt k p t) = t" "Parent (stamp rt k p t) = p"
  by (simp_all add: stamp_def)

lemma raise_stamp: "raise (call rt) e = Structured (stamp rt 1 (Parent e) (Text e))"
proof -
  have "Caller (call rt) 2 = Caller rt 1"
    using Caller_call [of rt 1] by (simp add: numeral_2_eq_2)
  then show ?thesis
    by (simp add: raise_def stamp_def FuncForPC_Name_call split: prod.splits)
qed

lemma Join_stamp:
  "Join rt errs =
     Some (if intercalate '', '' (map node_text (present errs)) = [] then nil
           else Structured (stamp rt 1 nil (intercalate '', '' (map node_text (present errs)))))"
  by (simp add: Join_def Join_loop_text stamp_def split: prod.splits)

lemma Has_present:
  "a \<noteq> nil \<Longrightarrow> Has a b = Some (b \<noteq> nil \<and> leaf_text b \<in> set (map leaf_text (chain a)))"
  using Has_loop_chain_aux [of a "leaf_text b"]
  by (cases b) (simp_all add: Has_def error_Error_def)

lemma Has_absent_present: "b \<noteq> nil \<Longrightarrow> Has nil b = None"
  by (cases b) (simp_all add: Has_def Has_loop_nil error_Error_def)

lemma set_fields:
  "set_line l' (set_fn n' (set_file f' (set_addr a' e))) = Error a' f' n' l' (Parent e) (Text e)"
  by (cases e) simp

lemma raise_vars_result: "snd (raise_vars rt s) = raise rt (raise_e s)"
  by (simp add: raise_vars_def raise_def set_fields Let_def split: prod.splits)

lemma raise_vars_frame:
  "caller_var (fst (raise_vars rt s)) = caller_var s \<and>
   raise_e (fst (raise_vars rt s)) = raise_e s"
  by (simp add: raise_vars_def Let_def split: prod.splits)

lemma Raise_vars_result: "snd (Raise_vars rt s) = Raise rt (caller_var s)"
  by (cases "caller_var s") (simp_all add: Raise_vars_def Raise_def raise_vars_result)

lemma Raise_vars_frame: "caller_var (fst (Raise_vars rt s)) = caller_var s"
  by (cases "caller_var s") (simp_all add: Raise_vars_def raise_vars_frame)

lemma render_node_text:
  "render x = node_text x @ (if has_parent x then '': '' @ render (case x of Structured e \<Rightarrow> Parent e | _ \<Rightarrow> nil) else [])"
  by (cases x) (simp_all add: render_nil render_Opaque render_Structured)

lemma render_eq_node_text: "(render x = node_text x) = (\<not> has_parent x)"
  by (cases x) (simp_all add: render_nil render_Opaque render_Structured)

lemma joined_render_iff:
  "(node_text a @ '', '' @ node_text b = render a @ '', '' @ render b) =
   (\<not> has_parent a \<and> \<not> has_parent b)"
proof
  assume eq: "node_text a @ '', '' @ node_text b = render a @ '', '' @ render b"
  obtain sa where sa: "render a = node_text a @ sa"
    using render_node_text [of a] by blast
  obtain sb where sb: "render b = node_text b @ sb"
    using render_node_text [of b] by blast
  from eq have "length (node_text a @ '', '' @ node_text b) = length (render a @ '', '' @ render b)"
    by (rule arg_cong)
  with sa sb have "sa = []" "sb = []" by simp_all
  with sa sb show "\<not> has_parent a \<and> \<not> has_parent b"
    by (simp add: render_eq_node_text [symmetric])
next
  assume "\<not> has_parent a \<and> \<not> has_parent b"
  then have "render a = node_text a" and "render b = node_text b"
    using render_eq_node_text [of a] render_eq_node_text [of b] by blast+
  then show "node_text a @ '', '' @ node_text b = render a @ '', '' @ render b"
    by simp
qed

lemma Join_pair:
  "a \<noteq> nil \<Longrightarrow> b \<noteq> nil \<Longrightarrow>
     Join rt [a, b] \<bind> error_Error = Some (node_text a @ '', '' @ node_text b)"
  by (simp add: Join_stamp present_def error_Error_render render_Structured stamp_sel)

section \<open>The claims\<close>

text \<open>
  C6. For every error \<open>e\<close>, the rendered description of \<open>e\<close> (the method \<open>Error()\<close>) is
  the concatenation, from the leaf to the root, of the text of each node of the chain,
  joined by \<open>": "\<close>; it ends at the node without a parent, and a foreign error in the
  chain contributes its own whole description and ends it. In particular, for
  \<open>a = New("root", nil)\<close>, \<open>b = New("mid", a)\<close>, \<open>c = New("leaf", b)\<close>, the description
  of \<open>c\<close> is \<open>"leaf: mid: root"\<close>.
\<close>

theorem Error_leaf_to_root:
  "Error_Error e = Some (render (Structured e)) \<and>
   render (Structured e) = intercalate '': '' (map node_text (chain (Structured e))) \<and>
   error_Error (New rt3 ''leaf'' (New rt2 ''mid'' (New rt1 ''root'' nil))) =
     Some ''leaf: mid: root''"
proof (intro conjI)
  show "Error_Error e = Some (render (Structured e))"
    by (rule Error_Error_render)
  show "render (Structured e) = intercalate '': '' (map node_text (chain (Structured e)))"
    by (simp only: render_def)
  show "error_Error (New rt3 ''leaf'' (New rt2 ''mid'' (New rt1 ''root'' nil))) =
     Some ''leaf: mid: root''"
    by (simp add: error_Error_render New_stamp render_Structured stamp_sel)
qed

text \<open>
  C7. \<open>Is(a, b)\<close> is true when both are absent, false when exactly one is absent, and
  otherwise true exactly when the leaf segments of the two descriptions are equal (the
  text of a structured error; of a foreign error the part of its message before the
  first \<open>": "\<close>). So \<open>Is(e, e)\<close> is true for every \<open>e\<close>, and two structured errors with the
  same text are equal under \<open>Is\<close> whatever their parents and contexts.
\<close>

theorem Is_leaf_segments:
  "Is a b = Some ((a = nil \<and> b = nil) \<or> (a \<noteq> nil \<and> b \<noteq> nil \<and> leaf_text a = leaf_text b)) \<and>
   Is e e = Some True \<and>
   Is (Structured (Error a1 f1 n1 l1 p1 t)) (Structured (Error a2 f2 n2 l2 p2 t)) = Some True"
  by (simp add: Is_char)

text \<open>
  C2. For every present error \<open>a\<close> and every error \<open>b\<close>: \<open>Has(a, b)\<close> is false when \<open>b\<close> is
  absent; when \<open>b\<close> is present it is true exactly when the leaf text of \<open>b\<close> is the leaf
  text of some node of the chain of \<open>a\<close>, a foreign error at the end of the chain being one
  node. And \<open>Has(nil, nil)\<close> is true.
\<close>

theorem Has_walks_chain:
  "(a \<noteq> nil \<longrightarrow>
      Has a b = Some (b \<noteq> nil \<and> leaf_text b \<in> set (map leaf_text (chain a)))) \<and>
   Has nil nil = Some True"
  by (simp add: Has_present) (simp add: Has_def)

theorem Has_walks_chain_witness:
  "Structured (Error 42 ''main.go'' ''main.main'' 12 (Opaque ''io: eof'') ''read'') \<noteq> nil \<and>
   Has (Structured (Error 42 ''main.go'' ''main.main'' 12 (Opaque ''io: eof'') ''read''))
     (Opaque ''io: closed'') = Some True \<and>
   Has (Structured (Error 42 ''main.go'' ''main.main'' 12 (Opaque ''io: eof'') ''read''))
     (Opaque ''eof'') = Some False \<and>
   Has (Structured (Error 42 ''main.go'' ''main.main'' 12 (Opaque ''io: eof'') ''read''))
     nil = Some False"
  using Has_walks_chain [of "Structured (Error 42 ''main.go'' ''main.main'' 12 (Opaque ''io: eof'') ''read'')" "Opaque ''io: closed''"]
    Has_walks_chain [of "Structured (Error 42 ''main.go'' ''main.main'' 12 (Opaque ''io: eof'') ''read'')" "Opaque ''eof''"]
    Has_walks_chain [of "Structured (Error 42 ''main.go'' ''main.main'' 12 (Opaque ''io: eof'') ''read'')" nil]
  by (simp add: Cut_def)

text \<open>
  C3. Comparison is total: \<open>Has(a, b)\<close> and \<open>Is(a, b)\<close> return a boolean for every pair of
  errors, also when \<open>a\<close> is absent and \<open>b\<close> is present. The code does not: with an absent
  \<open>a\<close> and a present \<open>b\<close> the loop of \<open>Has\<close> never ends, so the call does not return.
\<close>

theorem Has_absent_present_no_return:
  "Has nil (Structured (Error 0 [] [] 0 nil ''EOF'')) = None"
  by (simp add: Has_def Has_loop_nil)

text \<open>
  C4. Given an absent error, \<open>Trace\<close> returns after the header line. The code does not:
  after the header its loop never ends, so the call does not return.
\<close>

theorem Trace_absent_no_return:
  "Trace w nil out = None"
  by (simp add: Trace_def Trace_loop_nil)

text \<open>
  C5. For every present error, \<open>Trace\<close> returns, having written to its sink the header
  line and then one block for each node of the chain, the block of the root first and
  the block of the leaf last: the deferred writes run in the reverse of the order in
  which the walk from the leaf to the root pushed them. A chain has at most one foreign
  error, at its end, and the block of that node is the line \<open>no-context error:\<close> and the
  message, without location or function lines.
\<close>

theorem Trace_root_first:
  "(err \<noteq> nil \<longrightarrow>
      Trace w err out =
        Some (out(sink w := out (sink w) @ header @ NL @ concat (map block (rev (chain err))))) \<and>
      (filter opaque_node (chain err) = [] \<or>
       (\<exists>m. filter opaque_node (chain err) = [Opaque m] \<and> last (chain err) = Opaque m))) \<and>
   Trace w (Opaque m) out =
     Some (out(sink w := out (sink w) @ header @ NL @ ''no-context error:'' @ NL @ TAB @ m @ NL))"
  using Trace_present [of err w out] Trace_present [of "Opaque m" w out] chain_opaque_aux [of err]
  by (simp add: sink_def)

theorem Trace_root_first_witness:
  "Structured (Error 42 ''main.go'' ''main.main'' 12 (Opaque ''io: eof'') ''read'') \<noteq> nil \<and>
   Trace (Some (Stream 1))
     (Structured (Error 42 ''main.go'' ''main.main'' 12 (Opaque ''io: eof'') ''read''))
     (\<lambda>w. []) =
     Some ((\<lambda>w. [])(Stream 1 :=
       ''Traceback (most recent call first):'' @ NL @
       ''no-context error:'' @ NL @ TAB @ ''io: eof'' @ NL @
       ''main.main(...)'' @ NL @ TAB @ ''read'' @ NL @ TAB @ ''main.go:12'' @ NL))"
  using Trace_root_first [of "Structured (Error 42 ''main.go'' ''main.main'' 12 (Opaque ''io: eof'') ''read'')" "Some (Stream 1)" "\<lambda>w. []" "[]"]
  by (simp add: sink_def header_def Itoa_def)

text \<open>
  C8. For every structured error \<open>e\<close>, \<open>Raise\<close> returns a new \<open>Error\<close> with the text and the
  parent of \<open>e\<close> and with the context of the call site of \<open>Raise\<close>: address, file and
  line of the frame above \<open>Raise\<close>, and the name of the function at that address. On the
  store of variables the call returns that same value, and the caller's variable, which
  held \<open>e\<close> before the call, holds \<open>e\<close> after it, context fields included: the
  assignments of \<open>raise\<close> reach its local copy only, and only the result differs.
\<close>

theorem Raise_restamps:
  "Raise rt (Structured e) = Structured (stamp rt 1 (Parent e) (Text e)) \<and>
   Text (stamp rt 1 (Parent e) (Text e)) = Text e \<and>
   Parent (stamp rt 1 (Parent e) (Text e)) = Parent e \<and>
   (Addr (stamp rt 1 (Parent e) (Text e)), File (stamp rt 1 (Parent e) (Text e)),
    Line (stamp rt 1 (Parent e) (Text e))) =
     (case Caller rt 1 of (addr, file, line, ok) \<Rightarrow> (addr, file, line)) \<and>
   Func (stamp rt 1 (Parent e) (Text e)) =
     FuncForPC_Name rt (Addr (stamp rt 1 (Parent e) (Text e))) \<and>
   snd (Raise_vars rt (s\<lparr>caller_var := Structured e\<rparr>)) =
     Structured (stamp rt 1 (Parent e) (Text e)) \<and>
   caller_var (fst (Raise_vars rt (s\<lparr>caller_var := Structured e\<rparr>))) = Structured e"
proof -
  have "snd (Raise_vars rt (s\<lparr>caller_var := Structured e\<rparr>)) = Raise rt (Structured e)"
    by (simp add: Raise_vars_result)
  moreover have "caller_var (fst (Raise_vars rt (s\<lparr>caller_var := Structured e\<rparr>))) = Structured e"
    by (simp add: Raise_vars_frame)
  moreover have "Raise rt (Structured e) = Structured (stamp rt 1 (Parent e) (Text e))"
    by (simp add: Raise_def raise_stamp)
  ultimately show ?thesis
    by (simp add: stamp_def split: prod.splits)
qed

text \<open>
  C10. \<open>Raise\<close> returns a present error that is not a structured \<open>Error\<close> as it is, and
  \<open>Raise(nil)\<close> is \<open>nil\<close>.
\<close>

theorem Raise_identity_unstructured:
  "Raise rt (Opaque m) = Opaque m \<and> Raise rt nil = nil"
  by (simp add: Raise_def)

text \<open>
  C1, as the specification states it, fails: \<open>Join\<close> takes of a structured error its own
  text only, not its rendered description. For \<open>a\<close> with text \<open>leaf\<close> and a parent with
  text \<open>root\<close>, and \<open>b\<close> with text \<open>x\<close>, the description of \<open>Join(a, b)\<close> is \<open>"leaf, x"\<close>, and
  not the two rendered descriptions with \<open>", "\<close> between them.
\<close>

theorem Join_full_render_counterexample:
  "Join main_rt [Structured (Error 42 ''main.go'' ''main.main'' 12
       (Structured (Error 42 ''main.go'' ''main.main'' 10 nil ''root'')) ''leaf''),
     Structured (Error 42 ''main.go'' ''main.main'' 14 nil ''x'')] \<bind> error_Error
   = Some ''leaf, x'' \<and>
   render (Structured (Error 42 ''main.go'' ''main.main'' 12
       (Structured (Error 42 ''main.go'' ''main.main'' 10 nil ''root'')) ''leaf'')) @ '', '' @
   render (Structured (Error 42 ''main.go'' ''main.main'' 14 nil ''x''))
   = ''leaf: root, x'' \<and>
   Join main_rt [Structured (Error 42 ''main.go'' ''main.main'' 12
       (Structured (Error 42 ''main.go'' ''main.main'' 10 nil ''root'')) ''leaf''),
     Structured (Error 42 ''main.go'' ''main.main'' 14 nil ''x'')] \<bind> error_Error
   \<noteq> Some (render (Structured (Error 42 ''main.go'' ''main.main'' 12
       (Structured (Error 42 ''main.go'' ''main.main'' 10 nil ''root'')) ''leaf'')) @ '', '' @
     render (Structured (Error 42 ''main.go'' ''main.main'' 14 nil ''x'')))"
  by (simp add: Join_stamp present_def error_Error_render render_Structured stamp_sel)

text \<open>
  C1, amended. Absent entries are discarded. If all entries are absent the result is
  absent. If the joined text is not empty, the result is a new \<open>Error\<close> without a parent,
  with the context of the call site of \<open>Join\<close>, whose text is the joined text: the text
  (\<open>Text()\<close>) of each present structured error and the whole message of each present
  foreign error, in the order of the arguments, with \<open>", "\<close> between neighbours and no
  separator at the end. In particular, for present \<open>a\<close> and \<open>b\<close> the description of
  \<open>Join(a, b)\<close> is what \<open>a\<close> contributes, then \<open>", "\<close>, then what \<open>b\<close> contributes; and
  that is the rendered description of \<open>a\<close>, then \<open>", "\<close>, then the rendered description
  of \<open>b\<close>, exactly when neither \<open>a\<close> nor \<open>b\<close> is a structured error with a parent.
\<close>

theorem Join_leaf_texts:
  "(present errs0 = [] \<longrightarrow> Join rt errs0 = Some nil) \<and>
   (intercalate '', '' (map node_text (present errs)) \<noteq> [] \<longrightarrow>
      Join rt errs =
        Some (Structured (stamp rt 1 nil (intercalate '', '' (map node_text (present errs)))))) \<and>
   (a \<noteq> nil \<and> b \<noteq> nil \<longrightarrow>
      Join rt [a, b] \<bind> error_Error = Some (node_text a @ '', '' @ node_text b)) \<and>
   (a \<noteq> nil \<and> b \<noteq> nil \<longrightarrow>
      (Join rt [a, b] \<bind> error_Error = Some (render a @ '', '' @ render b)) =
      (\<not> has_parent a \<and> \<not> has_parent b))"
proof (intro conjI impI)
  assume "present errs0 = []"
  then show "Join rt errs0 = Some nil"
    by (simp add: Join_stamp)
next
  assume "intercalate '', '' (map node_text (present errs)) \<noteq> []"
  then show "Join rt errs =
      Some (Structured (stamp rt 1 nil (intercalate '', '' (map node_text (present errs)))))"
    by (simp add: Join_stamp)
next
  assume "a \<noteq> nil \<and> b \<noteq> nil"
  then show "Join rt [a, b] \<bind> error_Error = Some (node_text a @ '', '' @ node_text b)"
    by (simp add: Join_pair)
next
  assume "a \<noteq> nil \<and> b \<noteq> nil"
  then have "Join rt [a, b] \<bind> error_Error = Some (node_text a @ '', '' @ node_text b)"
    by (simp add: Join_pair)
  then show "(Join rt [a, b] \<bind> error_Error = Some (render a @ '', '' @ render b)) =
      (\<not> has_parent a \<and> \<not> has_parent b)"
    using joined_render_iff [of a b] by simp
qed

theorem Join_leaf_texts_witness:
  "present [nil, nil] = [] \<and> Join main_rt [nil, nil] = Some nil \<and>
   intercalate '', '' (map node_text (present
     [Structured (Error 1 ''a.go'' ''f'' 2 (Opaque ''io: eof'') ''read''), nil, Opaque ''x: y''])) \<noteq> [] \<and>
   Join main_rt [Structured (Error 1 ''a.go'' ''f'' 2 (Opaque ''io: eof'') ''read''), nil, Opaque ''x: y''] =
     Some (Structured (Error 42 ''main.go'' ''main.main'' 12 nil ''read, x: y'')) \<and>
   Structured (Error 1 ''a.go'' ''f'' 2 (Opaque ''io: eof'') ''read'') \<noteq> nil \<and> Opaque ''x: y'' \<noteq> nil \<and>
   Join main_rt [Structured (Error 1 ''a.go'' ''f'' 2 (Opaque ''io: eof'') ''read''), Opaque ''x: y'']
     \<bind> error_Error = Some ''read, x: y'' \<and>
   Join main_rt [Structured (Error 1 ''a.go'' ''f'' 2 (Opaque ''io: eof'') ''read''), Opaque ''x: y'']
     \<bind> error_Error \<noteq>
     Some (render (Structured (Error 1 ''a.go'' ''f'' 2 (Opaque ''io: eof'') ''read'')) @ '', '' @
           render (Opaque ''x: y''))"
proof -
  let ?a = "Structured (Error 1 ''a.go'' ''f'' 2 (Opaque ''io: eof'') ''read'')"
  let ?b = "Opaque ''x: y''"
  note T = Join_leaf_texts [of "[nil, nil]" main_rt "[?a, nil, ?b]" ?a ?b]
  have h1: "present [nil, nil] = []"
    by (simp add: present_def)
  have h2: "intercalate '', '' (map node_text (present [?a, nil, ?b])) = ''read, x: y''"
    by (simp add: present_def)
  have h3: "?a \<noteq> nil \<and> ?b \<noteq> nil"
    by simp
  have s: "stamp main_rt 1 nil ''read, x: y'' = Error 42 ''main.go'' ''main.main'' 12 nil ''read, x: y''"
    by (simp add: stamp_def Caller_def FuncForPC_Name_def main_rt_def)
  from T h1 have c1: "Join main_rt [nil, nil] = Some nil"
    by blast
  from T h2 have c2: "Join main_rt [?a, nil, ?b] =
      Some (Structured (stamp main_rt 1 nil ''read, x: y''))"
    by simp
  from T h3 have c3: "Join main_rt [?a, ?b] \<bind> error_Error =
      Some (node_text ?a @ '', '' @ node_text ?b)"
    by blast
  from T h3 have "(Join main_rt [?a, ?b] \<bind> error_Error =
      Some (render ?a @ '', '' @ render ?b)) = (\<not> has_parent ?a \<and> \<not> has_parent ?b)"
    by blast
  then have c4: "Join main_rt [?a, ?b] \<bind> error_Error \<noteq>
      Some (render ?a @ '', '' @ render ?b)"
    by simp
  from h1 h2 h3 c1 c2 c3 c4 s show ?thesis
    by simp
qed

text \<open>
  C9, as stated, fails: two present errors with empty descriptions give the joined text
  \<open>", "\<close>, which is not empty, and \<open>Join\<close> returns an \<open>Error\<close> with that text.
\<close>

theorem Join_two_empty_counterexample:
  "node_text (Structured (Error 42 ''main.go'' ''main.main'' 12 nil [])) = [] \<and>
   Join main_rt [Structured (Error 42 ''main.go'' ''main.main'' 12 nil []),
                 Structured (Error 42 ''main.go'' ''main.main'' 12 nil [])] =
     Some (Structured (Error 42 ''main.go'' ''main.main'' 12 nil '', '')) \<and>
   Join main_rt [Structured (Error 42 ''main.go'' ''main.main'' 12 nil []),
                 Structured (Error 42 ''main.go'' ''main.main'' 12 nil [])] \<noteq> Some nil"
  by (simp add: Join_stamp present_def stamp_def Caller_def FuncForPC_Name_def main_rt_def)

text \<open>
  C9, amended. \<open>Join\<close> returns absent exactly when the joined text, separators included,
  is empty: when no argument is present, or when exactly one argument is present and
  it contributes the empty description, as a single structured error with text \<open>""\<close>
  does although it is a present value. The decision is made on the text, not on whether
  a present argument was given.
\<close>

theorem Join_absent_iff_empty_text:
  "(Join rt errs = Some nil) =
     (intercalate '', '' (map node_text (present errs)) = []) \<and>
   (intercalate '', '' (map node_text (present errs)) = []) =
     (case present errs of [] \<Rightarrow> True | [e] \<Rightarrow> node_text e = [] | _ \<Rightarrow> False) \<and>
   Join rt [Structured (Error a f n l p [])] = Some nil"
  by (simp add: Join_stamp) (simp add: present_def split: list.splits)

end
